theory Spec2Isabelle
  imports Complex_Main "HOL-Library.AList" "HOL-Library.List_Lexorder"
begin

section \<open>Python values\<close>

text \<open>
  A Python \<open>str\<close> is a sequence of Unicode code points; \<open>len\<close> counts code points.
  Code points are natural numbers here, so that every decoded text is covered and not
  only the 8-bit ones.  \<open>U\<close> reads an ASCII literal as such a sequence.
\<close>

type_synonym ustr = "nat list"

definition U :: "string \<Rightarrow> ustr" where
  "U s = map of_char s"

text \<open>
  The dynamically typed values that \<open>json.loads\<close> produces and that the inference code
  inspects with \<open>isinstance\<close>.  A \<open>dict\<close> is an association list in insertion order
  (Python dicts iterate in insertion order); assignment to a key is \<open>AList.update\<close>,
  which overwrites in place or appends.  A float is kept as mantissa and binary exponent,
  or as one of the three special values; no float arithmetic is done on it.
\<close>

datatype pyfloat = FloatFinite int int | FloatInf bool | FloatNaN

datatype pyval =
    PNone
  | PBool bool
  | PInt int
  | PFloat pyfloat
  | PStr ustr
  | PList "pyval list"
  | PDict "(ustr \<times> pyval) list"

type_synonym pydict = "(ustr \<times> pyval) list"

fun is_dict :: "pyval \<Rightarrow> bool" where
  "is_dict (PDict d) = True"
| "is_dict v = False"

fun dict_items :: "pyval \<Rightarrow> pydict" where
  "dict_items (PDict d) = d"
| "dict_items v = []"

text \<open>\<open>isinstance(v, (dict, list))\<close>\<close>

fun is_nested :: "pyval \<Rightarrow> bool" where
  "is_nested (PDict d) = True"
| "is_nested (PList xs) = True"
| "is_nested v = False"

text \<open>Truth value of a Python object, as used by \<open>a or b\<close> and \<open>if not a\<close>.\<close>

fun truthy :: "pyval \<Rightarrow> bool" where
  "truthy PNone = False"
| "truthy (PBool b) = b"
| "truthy (PInt i) = (i \<noteq> 0)"
| "truthy (PFloat (FloatFinite m e)) = (m \<noteq> 0)"
| "truthy (PFloat f) = True"
| "truthy (PStr s) = (s \<noteq> [])"
| "truthy (PList xs) = (xs \<noteq> [])"
| "truthy (PDict d) = (d \<noteq> [])"

text \<open>\<open>type(v).__name__\<close>\<close>

fun type_name :: "pyval \<Rightarrow> ustr" where
  "type_name PNone = U ''NoneType''"
| "type_name (PBool b) = U ''bool''"
| "type_name (PInt i) = U ''int''"
| "type_name (PFloat f) = U ''float''"
| "type_name (PStr s) = U ''str''"
| "type_name (PList xs) = U ''list''"
| "type_name (PDict d) = U ''dict''"

section \<open>String primitives\<close>

text \<open>
  \<open>\s\<close> in a \<open>str\<close> pattern, \<open>str.strip()\<close> and \<open>str.isspace()\<close> all use CPython's
  \<open>Py_UNICODE_ISSPACE\<close>: U+0009..U+000D, U+001C..U+001F, U+0020, U+0085, U+00A0,
  U+1680, U+2000..U+200A, U+2028, U+2029, U+202F, U+205F, U+3000.
\<close>

definition is_space :: "nat \<Rightarrow> bool" where
  "is_space c = ((9 \<le> c \<and> c \<le> 13) \<or> (28 \<le> c \<and> c \<le> 32) \<or> c = 133 \<or> c = 160
      \<or> c = 5760 \<or> (8192 \<le> c \<and> c \<le> 8202) \<or> c = 8232 \<or> c = 8233 \<or> c = 8239
      \<or> c = 8287 \<or> c = 12288)"

text \<open>
  The line boundaries of \<open>str.splitlines()\<close>: \<open>\n\<close>, \<open>\r\<close>, \<open>\v\<close>, \<open>\f\<close>, U+001C,
  U+001D, U+001E, U+0085, U+2028, U+2029.
\<close>

definition is_linebreak :: "nat \<Rightarrow> bool" where
  "is_linebreak c = ((10 \<le> c \<and> c \<le> 13) \<or> (28 \<le> c \<and> c \<le> 30) \<or> c = 133
      \<or> c = 8232 \<or> c = 8233)"

text \<open>The class \<open>[\x00-\x08\x0e-\x1f\x7f-\x9f]\<close> of \<open>_RE_CONTROL\<close>.\<close>

definition is_control :: "nat \<Rightarrow> bool" where
  "is_control c = (c \<le> 8 \<or> (14 \<le> c \<and> c \<le> 31) \<or> (127 \<le> c \<and> c \<le> 159))"

definition is_ascii_upper :: "nat \<Rightarrow> bool" where
  "is_ascii_upper c = (65 \<le> c \<and> c \<le> 90)"

definition is_ascii_lower :: "nat \<Rightarrow> bool" where
  "is_ascii_lower c = (97 \<le> c \<and> c \<le> 122)"

definition is_ascii_digit :: "nat \<Rightarrow> bool" where
  "is_ascii_digit c = (48 \<le> c \<and> c \<le> 57)"

text \<open>\<open>[A-Za-z]\<close>\<close>

definition is_ascii_alpha :: "nat \<Rightarrow> bool" where
  "is_ascii_alpha c = (is_ascii_upper c \<or> is_ascii_lower c)"

text \<open>\<open>[A-Za-z0-9_]\<close>\<close>

definition is_word_char :: "nat \<Rightarrow> bool" where
  "is_word_char c = (is_ascii_alpha c \<or> is_ascii_digit c \<or> c = 95)"

text \<open>\<open>[a-z0-9_]\<close>\<close>

definition is_lower_word_char :: "nat \<Rightarrow> bool" where
  "is_lower_word_char c = (is_ascii_lower c \<or> is_ascii_digit c \<or> c = 95)"

definition py_strip :: "ustr \<Rightarrow> ustr" where
  "py_strip s = rev (dropWhile is_space (rev (dropWhile is_space s)))"

text \<open>
  \<open>re.sub('[class]+', r, s)\<close>: every maximal run of characters of the class is replaced
  by \<open>r\<close>.  The flag records that the scan is inside a run already replaced.
\<close>

fun sub_runs_from :: "(nat \<Rightarrow> bool) \<Rightarrow> ustr \<Rightarrow> bool \<Rightarrow> ustr \<Rightarrow> ustr" where
  "sub_runs_from P r inrun [] = []"
| "sub_runs_from P r inrun (c # cs) =
     (if P c then (if inrun then [] else r) @ sub_runs_from P r True cs
      else c # sub_runs_from P r False cs)"

definition sub_runs :: "(nat \<Rightarrow> bool) \<Rightarrow> ustr \<Rightarrow> ustr \<Rightarrow> ustr" where
  "sub_runs P r s = sub_runs_from P r False s"

text \<open>
  \<open>str.splitlines()\<close>: split at line boundaries, \<open>\r\n\<close> counting as one; no empty
  last line after a final boundary; the empty string has no lines.  \<open>cur\<close> is the line
  read so far.
\<close>

fun splitlines_from :: "ustr \<Rightarrow> ustr \<Rightarrow> ustr list" where
  "splitlines_from cur [] = (if cur = [] then [] else [cur])"
| "splitlines_from cur [c] = (if is_linebreak c then [cur] else [cur @ [c]])"
| "splitlines_from cur (c # d # cs) =
     (if c = 13 \<and> d = 10 then cur # splitlines_from [] cs
      else if is_linebreak c then cur # splitlines_from [] (d # cs)
      else splitlines_from (cur @ [c]) (d # cs))"

definition splitlines :: "ustr \<Rightarrow> ustr list" where
  "splitlines s = splitlines_from [] s"

text \<open>\<open>sep.join(xs)\<close>\<close>

fun join :: "ustr \<Rightarrow> ustr list \<Rightarrow> ustr" where
  "join sep [] = []"
| "join sep [x] = x"
| "join sep (x # y # ys) = x @ sep @ join sep (y # ys)"

text \<open>\<open>str(n)\<close> for a non-negative integer.\<close>

fun digits_of :: "nat \<Rightarrow> nat \<Rightarrow> ustr" where
  "digits_of 0 n = []"
| "digits_of (Suc fuel) n =
     (if n < 10 then [48 + n] else digits_of fuel (n div 10) @ [48 + n mod 10])"

definition str_of_nat :: "nat \<Rightarrow> ustr" where
  "str_of_nat n = digits_of (Suc n) n"

text \<open>
  \<open>str.lower()\<close>.  On ASCII it maps \<open>A..Z\<close> to \<open>a..z\<close> and nothing else.  What it does to
  a character beyond ASCII comes from the Unicode tables and may depend on the context
  (final sigma) and give several characters; it is the parameter \<open>low\<close>, called with the
  characters before (nearest first), the character, and the characters after.
\<close>

type_synonym lowering = "ustr \<Rightarrow> nat \<Rightarrow> ustr \<Rightarrow> ustr"

definition ascii_lower :: "nat \<Rightarrow> nat" where
  "ascii_lower c = (if is_ascii_upper c then c + 32 else c)"

fun lower_from :: "lowering \<Rightarrow> ustr \<Rightarrow> ustr \<Rightarrow> ustr" where
  "lower_from low pre [] = []"
| "lower_from low pre (c # cs) =
     (if c < 128 then [ascii_lower c] else low pre c cs) @ lower_from low (c # pre) cs"

definition py_lower :: "lowering \<Rightarrow> ustr \<Rightarrow> ustr" where
  "py_lower low s = lower_from low [] s"

text \<open>A lowering that leaves every character beyond ASCII as it is.\<close>

definition keep_nonascii :: lowering where
  "keep_nonascii pre c cs = [c]"

section \<open>etl/parser.py\<close>

subsection \<open>\<open>_clean_text\<close>\<close>

text \<open>
  \<open>_RE_LONG_TOKEN.sub(' ', text)\<close> with \<open>\S{120,}\<close>: the leftmost greedy match starts at
  the first character of a whitespace-free run of at least 120 characters and takes the
  whole run; a shorter run has no match at any of its positions.
\<close>

function sub_long_tokens :: "ustr \<Rightarrow> ustr" where
  "sub_long_tokens [] = []"
| "sub_long_tokens (c # cs) =
     (if is_space c then c # sub_long_tokens cs
      else (let tok = c # takeWhile (\<lambda>x. \<not> is_space x) cs
            in (if 120 \<le> length tok then [32] else tok)
               @ sub_long_tokens (dropWhile (\<lambda>x. \<not> is_space x) cs)))"
  by pat_completeness auto
termination
  by (relation "measure length") (auto simp: length_dropWhile_le less_Suc_eq_le)

definition clean_text :: "ustr \<Rightarrow> ustr" where
  "clean_text raw =
     (let text1 = sub_runs is_control [32] raw;
          text2 = map (\<lambda>c. if c = 13 then 10 else c) text1;
          text3 = sub_long_tokens text2
      in py_strip (sub_runs is_space [32] text3))"

subsection \<open>\<open>_sanitize_keys\<close>\<close>

text \<open>
  The table and CSV records map a column name to a cell text.  A key is stripped,
  lowercased, its whitespace runs become \<open>_\<close>, and every character outside
  \<open>[A-Za-z0-9_]\<close> is dropped; an empty or over-long result drops the entry.
\<close>

type_synonym row = "(ustr \<times> ustr) list"

definition sanitize_key :: "lowering \<Rightarrow> ustr \<Rightarrow> ustr" where
  "sanitize_key low k =
     filter is_word_char (sub_runs is_space [95] (py_lower low (py_strip k)))"

fun sanitize_keys_into :: "lowering \<Rightarrow> row \<Rightarrow> row \<Rightarrow> row" where
  "sanitize_keys_into low out [] = out"
| "sanitize_keys_into low out ((k, v) # d) =
     (let k2 = sanitize_key low k
      in if k2 = [] \<or> 60 < length k2 then sanitize_keys_into low out d
         else sanitize_keys_into low (AList.update k2 v out) d)"

definition sanitize_keys :: "lowering \<Rightarrow> row \<Rightarrow> row" where
  "sanitize_keys low d = sanitize_keys_into low [] d"

text \<open>A dict comprehension \<open>{k: v for ...}\<close> over a list of pairs.\<close>

definition dict_of :: "('k \<times> 'v) list \<Rightarrow> ('k \<times> 'v) list" where
  "dict_of kvs = fold (\<lambda>(k, v) d. AList.update k v d) kvs []"

subsection \<open>\<open>extract_kv_pairs\<close>\<close>

text \<open>\<open>_RE_SAFE_KEY\<close> is \<open>^[A-Za-z0-9_\- ]{1,60}$\<close>; a line holds no newline.\<close>

definition is_safe_key :: "ustr \<Rightarrow> bool" where
  "is_safe_key k = (1 \<le> length k \<and> length k \<le> 60
      \<and> list_all (\<lambda>c. is_word_char c \<or> c = 45 \<or> c = 32) k)"

definition kv_of_line :: "ustr \<Rightarrow> (ustr \<times> ustr) option" where
  "kv_of_line line =
     (if 58 \<notin> set line then None
      else (let key = py_strip (takeWhile (\<lambda>c. c \<noteq> 58) line);
                val = py_strip (tl (dropWhile (\<lambda>c. c \<noteq> 58) line))
            in if key = [] \<or> 80 < length key then None
               else if \<not> is_safe_key key then
                 (let key2 = py_strip (filter (\<lambda>c. is_word_char c \<or> c = 32) key)
                  in if key2 = [] then None else Some (key2, val))
               else Some (key, val)))"

definition extract_kv_pairs :: "ustr \<Rightarrow> (ustr \<times> ustr) list" where
  "extract_kv_pairs text = List.map_filter kv_of_line (splitlines text)"

subsection \<open>Collaborators of the extractor\<close>

text \<open>
  Library calls the extractor delegates to.  A result \<open>None\<close> is a raised exception.
  \<^item> \<open>pdf_extract_text\<close>: pdfminer's \<open>extract_text\<close> on the bytes;
  \<^item> \<open>utf8_decode\<close>: \<open>b.decode('utf-8', errors='ignore')\<close>, which cannot raise;
  \<^item> \<open>json_loads\<close>: \<open>json.loads\<close>;
  \<^item> \<open>html_tables_of\<close>: BeautifulSoup: for each \<open>table\<close> element, for each of its
    \<open>tr\<close> elements, the stripped texts of its \<open>td\<close> and \<open>th\<close> cells;
  \<^item> \<open>csv_reader\<close>: \<open>list(csv.reader(io.StringIO(block)))\<close>;
  \<^item> \<open>lower_nonascii\<close>: \<open>str.lower()\<close> beyond ASCII.
\<close>

record collaborators =
  pdf_extract_text :: "nat list \<Rightarrow> ustr option"
  utf8_decode :: "nat list \<Rightarrow> ustr"
  json_loads :: "ustr \<Rightarrow> pyval option"
  html_tables_of :: "ustr \<Rightarrow> ustr list list list option"
  csv_reader :: "ustr \<Rightarrow> ustr list list option"
  lower_nonascii :: lowering

subsection \<open>JSON fragments\<close>

text \<open>
  \<open>_repair_json_fragment\<close>: \<open>re.sub(r',\s*([\]}])', r'\1', s)\<close> drops a comma, and the
  whitespace after it, in front of a closing bracket or brace.
\<close>

function repair_json_fragment :: "ustr \<Rightarrow> ustr" where
  "repair_json_fragment [] = []"
| "repair_json_fragment (c # cs) =
     (if c = 44 then
        (case dropWhile is_space cs of
           [] \<Rightarrow> c # repair_json_fragment cs
         | d # ds \<Rightarrow> if d = 93 \<or> d = 125 then d # repair_json_fragment ds
                     else c # repair_json_fragment cs)
      else c # repair_json_fragment cs)"
  by pat_completeness auto
termination
proof (relation "measure length")
  fix c :: nat and cs x21 x22
  assume "dropWhile is_space cs = x21 # x22"
  then have "length (x21 # x22) \<le> length cs"
    by (metis length_dropWhile_le)
  then show "(x22, c # cs) \<in> measure length" by simp
qed auto

text \<open>
  \<open>_extract_brace_jsons\<close>: one pass with a stack of open braces (its depth is all that
  matters) and the start of the current top-level block, \<open>frag\<close> holding the text from
  that start on.
\<close>

fun extract_brace_jsons_from :: "nat \<Rightarrow> ustr option \<Rightarrow> ustr \<Rightarrow> ustr list" where
  "extract_brace_jsons_from depth frag [] = []"
| "extract_brace_jsons_from depth frag (ch # cs) =
     (let frag1 = map_option (\<lambda>f. f @ [ch]) frag
      in if ch = 123 then
           extract_brace_jsons_from (Suc depth) (if depth = 0 then Some [ch] else frag1) cs
         else if ch = 125 then
           (if 0 < depth then
              (if depth = 1 then
                 (case frag1 of
                    Some f \<Rightarrow> f # extract_brace_jsons_from 0 None cs
                  | None \<Rightarrow> extract_brace_jsons_from 0 None cs)
               else extract_brace_jsons_from (depth - 1) frag1 cs)
            else extract_brace_jsons_from depth frag1 cs)
         else extract_brace_jsons_from depth frag1 cs)"

definition extract_brace_jsons :: "ustr \<Rightarrow> ustr list" where
  "extract_brace_jsons text = extract_brace_jsons_from 0 None text"

definition try_parse_json :: "collaborators \<Rightarrow> ustr \<Rightarrow> pyval option" where
  "try_parse_json E text =
     (let s = py_strip text
      in case json_loads E s of
           Some v \<Rightarrow> Some v
         | None \<Rightarrow> json_loads E (repair_json_fragment s))"

definition dict_result :: "pyval option \<Rightarrow> pyval list" where
  "dict_result r = (case r of Some v \<Rightarrow> (if is_dict v then [v] else []) | None \<Rightarrow> [])"

definition extract_json_fragments :: "collaborators \<Rightarrow> ustr \<Rightarrow> pyval list" where
  "extract_json_fragments E text =
     dict_result (try_parse_json E text)
     @ concat (map (\<lambda>frag. dict_result (try_parse_json E frag)) (extract_brace_jsons text))"

subsection \<open>HTML tables\<close>

text \<open>\<open>any(re.search(r'[A-Za-z]', h or '') for h in hdr)\<close>\<close>

definition header_like :: "ustr list \<Rightarrow> bool" where
  "header_like hdr = list_ex (list_ex is_ascii_alpha) hdr"

definition col_name :: "nat \<Rightarrow> ustr" where
  "col_name i = U ''col'' @ str_of_nat i"

text \<open>
  The records of one table.  Rows without cells are skipped.  With a header row, a data
  row is padded with empty cells up to the header's length, and cells beyond it are not
  read.  Without one, rows of one common width get the positional names.
\<close>

definition table_records :: "lowering \<Rightarrow> ustr list list \<Rightarrow> row list" where
  "table_records low trs =
     (let rows = filter (\<lambda>cols. cols \<noteq> []) trs
      in case rows of
           [] \<Rightarrow> []
         | hdr # data \<Rightarrow>
             if 2 \<le> length rows \<and> header_like hdr then
               (let headers = map (\<lambda>(i, h). if h \<noteq> [] then h else col_name i)
                                  (zip [0 ..< length hdr] hdr)
                in map (\<lambda>r. sanitize_keys low
                         (dict_of (zip (map py_strip headers)
                            (map py_strip (r @ replicate (length headers - length r) [])))))
                       data)
             else if 2 \<le> length rows \<and> list_all (\<lambda>r. length r = length hdr) rows then
               (let headers = map col_name [0 ..< length hdr]
                in map (\<lambda>r. sanitize_keys low (dict_of (zip headers (map py_strip r)))) rows)
             else [])"

definition extract_html_tables :: "collaborators \<Rightarrow> ustr \<Rightarrow> row list" where
  "extract_html_tables E text =
     (case html_tables_of E text of
        None \<Rightarrow> []
      | Some tables \<Rightarrow> concat (map (table_records (lower_nonascii E)) tables))"

subsection \<open>CSV windows\<close>

text \<open>The records of the window of up to 20 lines that starts at line \<open>i\<close>.\<close>

definition csv_block_records :: "collaborators \<Rightarrow> ustr \<Rightarrow> row list" where
  "csv_block_records E block =
     (if 44 \<notin> set block then []
      else case csv_reader E block of
             None \<Rightarrow> []
           | Some reader \<Rightarrow>
               (case reader of
                  [] \<Rightarrow> []
                | header # data \<Rightarrow>
                    if length reader < 2 then []
                    else if \<not> header_like header then []
                    else map (\<lambda>r. sanitize_keys (lower_nonascii E)
                                (dict_of (zip (map py_strip header) (map py_strip r))))
                             (filter (\<lambda>r. length r = length header) data)))"

definition extract_csv_fragments :: "collaborators \<Rightarrow> ustr \<Rightarrow> row list" where
  "extract_csv_fragments E text =
     (let lines = filter (\<lambda>ln. py_strip ln \<noteq> []) (splitlines text)
      in concat (map (\<lambda>i. csv_block_records E (join [10] (take 20 (drop i lines))))
                     [0 ..< max 1 (length lines)]))"

subsection \<open>\<open>extract_fragments_from_bytes\<close>\<close>

record fragments =
  json_fragments :: "pyval list"
  html_tables :: "row list"
  csv_fragments :: "row list"
  kv_pairs :: "(ustr \<times> ustr) list"
  raw_text :: ustr

text \<open>\<open>filename.lower().endswith(".pdf")\<close>, for a filename that is given and not empty.\<close>

definition is_pdf_name :: "lowering \<Rightarrow> ustr option \<Rightarrow> bool" where
  "is_pdf_name low filename =
     (case filename of
        None \<Rightarrow> False
      | Some fn \<Rightarrow> fn \<noteq> [] \<and>
          (let l = py_lower low fn in 4 \<le> length l \<and> drop (length l - 4) l = U ''.pdf''))"

text \<open>
  \<open>_try_extract_pdf_text\<close> returns the extracted text, the empty text when there is
  none, and the plain decoding when the extraction raises.
\<close>

definition try_extract_pdf_text :: "collaborators \<Rightarrow> nat list \<Rightarrow> ustr" where
  "try_extract_pdf_text E b =
     (case pdf_extract_text E b of Some txt \<Rightarrow> txt | None \<Rightarrow> utf8_decode E b)"

definition decode_bytes :: "collaborators \<Rightarrow> nat list \<Rightarrow> ustr option \<Rightarrow> ustr" where
  "decode_bytes E b filename =
     (if is_pdf_name (lower_nonascii E) filename then try_extract_pdf_text E b
      else utf8_decode E b)"

definition extract_fragments_from_bytes ::
    "collaborators \<Rightarrow> nat list \<Rightarrow> ustr option \<Rightarrow> fragments" where
  "extract_fragments_from_bytes E b filename =
     (let text = clean_text (decode_bytes E b filename)
      in \<lparr> json_fragments = extract_json_fragments E text,
           html_tables = extract_html_tables E text,
           csv_fragments = extract_csv_fragments E text,
           kv_pairs = extract_kv_pairs text,
           raw_text = take 10000 text \<rparr>)"

text \<open>
  An instance of the collaborators for running the extractor on ASCII input: bytes below
  128 decode to themselves, no record of the text parses as JSON, there is no HTML table,
  and the CSV reader splits at newlines and commas (no quoting).
\<close>

fun split_on :: "nat \<Rightarrow> ustr \<Rightarrow> ustr \<Rightarrow> ustr list" where
  "split_on sep cur [] = [cur]"
| "split_on sep cur (c # cs) =
     (if c = sep then cur # split_on sep [] cs else split_on sep (cur @ [c]) cs)"

definition plain_csv_reader :: "ustr \<Rightarrow> ustr list list option" where
  "plain_csv_reader block =
     Some (map (split_on 44 []) (filter (\<lambda>l. l \<noteq> []) (split_on 10 [] block)))"

definition ascii_collaborators :: collaborators where
  "ascii_collaborators =
     \<lparr> pdf_extract_text = (\<lambda>b. None),
       utf8_decode = filter (\<lambda>c. c < 128),
       json_loads = (\<lambda>s. None),
       html_tables_of = (\<lambda>s. Some []),
       csv_reader = plain_csv_reader,
       lower_nonascii = keep_nonascii \<rparr>"

subsection \<open>Assumptions on the collaborators\<close>

text \<open>
  \<open>csv.reader\<close> reads the lines of its input and gives at most one row per line; on a
  block that holds no line boundary it gives at most one row, or raises.
\<close>

definition reads_one_row_per_line :: "collaborators \<Rightarrow> bool" where
  "reads_one_row_per_line E =
     (\<forall>block. list_all (\<lambda>c. \<not> is_linebreak c) block \<longrightarrow>
        (case csv_reader E block of None \<Rightarrow> True | Some rows \<Rightarrow> length rows \<le> 1))"

text \<open>The lowercase form of a character beyond ASCII contains none of \<open>A..Z\<close>.\<close>

definition lowercase_only :: "lowering \<Rightarrow> bool" where
  "lowercase_only low =
     (\<forall>pre c cs. 128 \<le> c \<longrightarrow> list_all (\<lambda>d. \<not> is_ascii_upper d) (low pre c cs))"

text \<open>
  A key made of one or more characters of \<open>[a-z0-9_]\<close> and nothing else; such a key
  matches \<open>^[a-z0-9_]+$\<close>.
\<close>

definition matches_key_pattern :: "ustr \<Rightarrow> bool" where
  "matches_key_pattern k = (k \<noteq> [] \<and> list_all is_lower_word_char k)"

text \<open>
  The entries of a record under their sanitized keys, without those whose sanitized key
  is empty or longer than 60 characters.
\<close>

definition kept_entries :: "lowering \<Rightarrow> row \<Rightarrow> row" where
  "kept_entries low d =
     filter (\<lambda>(k2, v). k2 \<noteq> [] \<and> length k2 \<le> 60) (map (\<lambda>(k, v). (sanitize_key low k, v)) d)"

text \<open>Texts of the examples.\<close>

definition two_lines :: ustr where
  "two_lines = U ''Name: Alice'' @ [10] @ U ''Age: 30''"

definition small_table :: ustr where
  "small_table = U ''Full Name,Age,??'' @ [10] @ U ''Al,3,x''"

section \<open>etl/schema_generator.py\<close>

text \<open>
  The thresholds are Python floats and the ratios are float quotients of two counts.
  They are rationals here: the comparison of the exact ratio with the exact threshold.
  The two agree for every number of documents a list can hold, a quotient of two counts
  below \<open>2^45\<close> being either equal to the threshold as a rational or further from it than
  any rounding error.
\<close>

record StorageDecisionConfig =
  CONSISTENCY_THRESHOLD :: rat
  MIN_COLUMNS_FOR_SQL :: nat
  MIN_DOCS_FOR_CONSISTENCY :: nat
  DATE_THRESHOLD :: rat
  INT_THRESHOLD :: rat
  FLOAT_THRESHOLD :: rat
  TREAT_LIST_AS_NONSCALAR :: bool

definition CFG :: StorageDecisionConfig where
  "CFG = \<lparr> CONSISTENCY_THRESHOLD = 7 / 10,
           MIN_COLUMNS_FOR_SQL = 1,
           MIN_DOCS_FOR_CONSISTENCY = 2,
           DATE_THRESHOLD = 6 / 10,
           INT_THRESHOLD = 8 / 10,
           FLOAT_THRESHOLD = 5 / 10,
           TREAT_LIST_AS_NONSCALAR = True \<rparr>"

definition ratio :: "nat \<Rightarrow> nat \<Rightarrow> rat" where
  "ratio a c = of_nat a / of_nat c"

subsection \<open>Type detection helpers\<close>

text \<open>
  The builtins the helpers call on strings, as predicates "the call does not raise":
  \<open>int(s)\<close>, \<open>float(s)\<close>, \<open>dateutil.parser.parse(s, fuzzy=False)\<close>; \<open>str(v)\<close> of a
  float, a list or a dict; and \<open>str.lower()\<close> beyond ASCII.
\<close>

record builtins =
  int_of_str :: "ustr \<Rightarrow> bool"
  float_of_str :: "ustr \<Rightarrow> bool"
  dateutil_parse :: "ustr \<Rightarrow> bool"
  str_of_other :: "pyval \<Rightarrow> ustr"
  lower_beyond_ascii :: lowering

definition str_of_int :: "int \<Rightarrow> ustr" where
  "str_of_int i = (if i < 0 then 45 # str_of_nat (nat (- i)) else str_of_nat (nat i))"

fun py_str :: "builtins \<Rightarrow> pyval \<Rightarrow> ustr" where
  "py_str E PNone = U ''None''"
| "py_str E (PBool b) = (if b then U ''True'' else U ''False'')"
| "py_str E (PInt i) = str_of_int i"
| "py_str E (PStr s) = s"
| "py_str E v = str_of_other E v"

text \<open>
  \<open>_is_int\<close>: a \<open>bool\<close> is refused first; \<open>int(v)\<close> raises on \<open>None\<close>, on a list or a
  dict, on a NaN or an infinity, and on a string that is not an integer literal.
\<close>

fun is_int :: "builtins \<Rightarrow> pyval \<Rightarrow> bool" where
  "is_int E (PBool b) = False"
| "is_int E (PInt i) = True"
| "is_int E (PFloat (FloatFinite m e)) = True"
| "is_int E (PFloat f) = False"
| "is_int E (PStr s) = int_of_str E s"
| "is_int E v = False"

text \<open>
  \<open>float(v)\<close> does not raise.  It accepts a \<open>bool\<close>.  (On an \<open>int\<close> too large for a
  float it raises; \<open>_is_float\<close> is \<open>False\<close> on every \<open>int\<close> either way.)
\<close>

fun float_accepts :: "builtins \<Rightarrow> pyval \<Rightarrow> bool" where
  "float_accepts E (PBool b) = True"
| "float_accepts E (PInt i) = True"
| "float_accepts E (PFloat f) = True"
| "float_accepts E (PStr s) = float_of_str E s"
| "float_accepts E v = False"

definition is_float :: "builtins \<Rightarrow> pyval \<Rightarrow> bool" where
  "is_float E v = (float_accepts E v \<and> \<not> is_int E v)"

definition bool_words :: "ustr list" where
  "bool_words = [U ''true'', U ''false'', U ''1'', U ''0'', U ''yes'', U ''no'', U ''y'', U ''n'']"

fun is_bool :: "builtins \<Rightarrow> pyval \<Rightarrow> bool" where
  "is_bool E (PBool b) = True"
| "is_bool E v = (py_lower (lower_beyond_ascii E) (py_strip (py_str E v)) \<in> set bool_words)"

fun is_date :: "builtins \<Rightarrow> pyval \<Rightarrow> bool" where
  "is_date E PNone = False"
| "is_date E (PBool b) = False"
| "is_date E (PInt i) = False"
| "is_date E (PFloat f) = False"
| "is_date E v =
     (let s = py_strip (py_str E v)
      in if length s < 4 \<or> 40 < length s then False else dateutil_parse E s)"

definition is_scalar :: "pyval \<Rightarrow> bool" where
  "is_scalar v =
     (if is_nested v \<and> \<not> TREAT_LIST_AS_NONSCALAR CFG then True else \<not> is_nested v)"

subsection \<open>\<open>detect_storage_type\<close>\<close>

text \<open>
  \<open>f"{x:.2f}"\<close> for a ratio \<open>x \<ge> 0\<close>: the nearest multiple of \<open>0.01\<close>, ties to the even
  one, with two decimals.
\<close>

definition format_2f :: "rat \<Rightarrow> ustr" where
  "format_2f x =
     (let h = x * 100;
          n = \<lfloor>h\<rfloor>;
          r = (if 1 / 2 < h - of_int n \<or> (h - of_int n = 1 / 2 \<and> odd n) then n + 1 else n);
          k = nat r
      in str_of_nat (k div 100) @ [46, 48 + (k div 10) mod 10, 48 + k mod 10])"

definition keyset :: "pyval \<Rightarrow> ustr set" where
  "keyset d = set (map fst (dict_items d))"

definition has_nested_value :: "pyval \<Rightarrow> bool" where
  "has_nested_value d = list_ex is_nested (map snd (dict_items d))"

text \<open>
  \<open>sample_docs\<close> is the list of candidate documents (\<open>None\<close> counts as the empty list);
  entries that are not dicts are dropped.  The result is the pair of decision and
  reason.
\<close>

definition detect_storage_type :: "pyval list \<Rightarrow> fragments \<Rightarrow> ustr \<times> ustr" where
  "detect_storage_type sample_docs frags =
     (if csv_fragments frags \<noteq> [] then (U ''sql'', U ''contains csv fragments'')
      else if html_tables frags \<noteq> [] then (U ''sql'', U ''contains html tables'')
      else
        (let docs = filter is_dict sample_docs
         in if docs = [] then
              (if kv_pairs frags \<noteq> [] then (U ''object'', U ''only key:value pairs'')
               else (U ''object'', U ''no structured docs found''))
            else
              (let nested_count = length (filter has_nested_value docs);
                   keysets = map keyset docs;
                   base = hd keysets;
                   same_keys = length (filter (\<lambda>s. s = base) keysets);
                   consistency = ratio same_keys (length keysets)
               in if 0 < nested_count then
                    (U ''nosql'',
                     U ''found nested structures in '' @ str_of_nat nested_count @ U '' docs'')
                  else if MIN_DOCS_FOR_CONSISTENCY CFG \<le> length docs
                          \<and> CONSISTENCY_THRESHOLD CFG \<le> consistency
                          \<and> MIN_COLUMNS_FOR_SQL CFG \<le> card base then
                    (if list_all (\<lambda>d. list_all is_scalar (map snd (dict_items d))) docs then
                       (U ''sql'',
                        U ''consistent flat rows ('' @ str_of_nat (card base)
                          @ U '' cols, consistency='' @ format_2f consistency @ U '')'')
                     else (U ''nosql'', U ''flat keys but some non-scalar values''))
                  else (U ''object'', U ''no consistent tabular structure detected''))))"

subsection \<open>\<open>infer_field_types\<close>\<close>

record stat =
  counts :: nat
  n_int :: nat
  n_float :: nat
  n_bool :: nat
  n_date :: nat
  n_object :: nat
  n_array :: nat
  sample :: pyval

definition new_stat :: "pyval \<Rightarrow> stat" where
  "new_stat v = \<lparr> counts = 0, n_int = 0, n_float = 0, n_bool = 0, n_date = 0,
                  n_object = 0, n_array = 0, sample = v \<rparr>"

text \<open>One occurrence: the count goes up, and the first test that holds takes the tally.\<close>

definition tally :: "builtins \<Rightarrow> pyval \<Rightarrow> stat \<Rightarrow> stat" where
  "tally E v s0 =
     (let s = s0\<lparr>counts := counts s0 + 1\<rparr>
      in if is_int E v then s\<lparr>n_int := n_int s + 1\<rparr>
         else if is_float E v then s\<lparr>n_float := n_float s + 1\<rparr>
         else if is_bool E v then s\<lparr>n_bool := n_bool s + 1\<rparr>
         else if is_date E v then s\<lparr>n_date := n_date s + 1\<rparr>
         else (case v of
                 PDict d \<Rightarrow> s\<lparr>n_object := n_object s + 1\<rparr>
               | PList xs \<Rightarrow> s\<lparr>n_array := n_array s + 1\<rparr>
               | _ \<Rightarrow> s))"

definition add_occurrence ::
    "builtins \<Rightarrow> ustr \<times> pyval \<Rightarrow> (ustr \<times> stat) list \<Rightarrow> (ustr \<times> stat) list" where
  "add_occurrence E kv stats =
     (case kv of (k, v) \<Rightarrow>
        (let s = (case map_of stats k of None \<Rightarrow> new_stat v | Some s \<Rightarrow> s)
         in AList.update k (tally E v s) stats))"

definition collect_stats :: "builtins \<Rightarrow> pyval list \<Rightarrow> (ustr \<times> stat) list" where
  "collect_stats E docs =
     fold (\<lambda>d stats. if is_dict d then fold (add_occurrence E) (dict_items d) stats else stats)
          docs []"

definition classify :: "stat \<Rightarrow> ustr" where
  "classify s =
     (let c = counts s
      in if 0 < n_object s then U ''object''
         else if 0 < n_array s then U ''array''
         else if DATE_THRESHOLD CFG \<le> ratio (n_date s) c then U ''date''
         else if INT_THRESHOLD CFG \<le> ratio (n_int s) c then U ''integer''
         else if FLOAT_THRESHOLD CFG \<le> ratio (n_float s) c
                 \<or> (8 / 10 \<le> ratio (n_int s + n_float s) c \<and> 0 < n_float s) then U ''decimal''
         else if 8 / 10 \<le> ratio (n_bool s) c then U ''boolean''
         else U ''string'')"

record field_info =
  f_type :: ustr
  f_example :: pyval
  f_count :: nat

definition infer_field_types :: "builtins \<Rightarrow> pyval list \<Rightarrow> (ustr \<times> field_info) list" where
  "infer_field_types E docs =
     map (\<lambda>(k, s). (k, \<lparr> f_type = classify s, f_example = sample s, f_count = counts s \<rparr>))
         (collect_stats E docs)"

subsection \<open>\<open>generate_sql_schema\<close>\<close>

definition sql_type_from_inferred :: "ustr \<Rightarrow> ustr" where
  "sql_type_from_inferred t =
     (if t = U ''integer'' then U ''INTEGER''
      else if t = U ''decimal'' then U ''DECIMAL''
      else if t = U ''boolean'' then U ''BOOLEAN''
      else if t = U ''date'' then U ''TIMESTAMP''
      else U ''TEXT'')"

text \<open>\<open>re.sub(r'[^A-Za-z0-9_]', '_', k).lower()\<close>\<close>

definition colname :: "builtins \<Rightarrow> ustr \<Rightarrow> ustr" where
  "colname E k =
     py_lower (lower_beyond_ascii E) (map (\<lambda>c. if is_word_char c then c else 95) k)"

text \<open>The columns of the table, name and SQL type, one for each inferred field.\<close>

definition sql_columns :: "builtins \<Rightarrow> pyval list \<Rightarrow> (ustr \<times> ustr) list" where
  "sql_columns E docs =
     map (\<lambda>(k, meta). (colname E k, sql_type_from_inferred (f_type meta)))
         (infer_field_types E docs)"

record sql_schema =
  ddl :: ustr
  reason :: "ustr option"
  inferred_fields :: "(ustr \<times> field_info) list"

definition generate_sql_schema :: "builtins \<Rightarrow> ustr \<Rightarrow> pyval list \<Rightarrow> sql_schema" where
  "generate_sql_schema E table_name docs =
     (if docs = [] then \<lparr> ddl = [], reason = Some (U ''no docs''), inferred_fields = [] \<rparr>
      else \<lparr> ddl = U ''CREATE TABLE \"'' @ table_name @ U ''\" ('' @ [10]
                   @ join (U '','' @ [10])
                        (map (\<lambda>(c, t). U ''    \"'' @ c @ U ''\" '' @ t) (sql_columns E docs))
                   @ [10] @ U '');'',
             reason = None,
             inferred_fields = infer_field_types E docs \<rparr>)"

text \<open>
  An instance of the builtins for running the helpers on ASCII values: an integer literal
  is an optional sign and decimal digits, a float literal is that or digits around one
  point, a date is \<open>dddd-dd-dd\<close>; the text of a float, list or dict is left empty.
\<close>

definition unsigned :: "ustr \<Rightarrow> ustr" where
  "unsigned s = (case s of [] \<Rightarrow> [] | c # r \<Rightarrow> if c = 43 \<or> c = 45 then r else s)"

definition ascii_int_literal :: "ustr \<Rightarrow> bool" where
  "ascii_int_literal s =
     (let d = unsigned (py_strip s) in d \<noteq> [] \<and> list_all is_ascii_digit d)"

definition ascii_float_literal :: "ustr \<Rightarrow> bool" where
  "ascii_float_literal s =
     (let d = unsigned (py_strip s);
          a = takeWhile (\<lambda>c. c \<noteq> 46) d;
          b = drop 1 (dropWhile (\<lambda>c. c \<noteq> 46) d)
      in (a \<noteq> [] \<or> b \<noteq> []) \<and> list_all is_ascii_digit a \<and> list_all is_ascii_digit b)"

definition iso_date_literal :: "ustr \<Rightarrow> bool" where
  "iso_date_literal s =
     (length s = 10 \<and> list_all is_ascii_digit (take 4 s) \<and> s ! 4 = 45
      \<and> list_all is_ascii_digit (take 2 (drop 5 s)) \<and> s ! 7 = 45
      \<and> list_all is_ascii_digit (drop 8 s))"

definition ascii_builtins :: builtins where
  "ascii_builtins =
     \<lparr> int_of_str = ascii_int_literal,
       float_of_str = ascii_float_literal,
       dateutil_parse = iso_date_literal,
       str_of_other = (\<lambda>v. []),
       lower_beyond_ascii = keep_nonascii \<rparr>"

section \<open>Properties of the extractor\<close>

subsection \<open>The cleaned text is one line\<close>

lemma linebreak_is_space: "is_linebreak c \<Longrightarrow> is_space c \<and> c \<noteq> 32"
  by (auto simp: is_linebreak_def is_space_def)

lemma sub_runs_from_space:
  "list_all (\<lambda>c. \<not> is_space c \<or> c = 32) (sub_runs_from is_space [32] b s)"
  by (induction s arbitrary: b) auto

lemma set_py_strip: "set (py_strip s) \<subseteq> set s"
proof -
  have "set (py_strip s) \<subseteq> set (dropWhile is_space s)"
    unfolding py_strip_def using set_dropWhileD by fastforce
  also have "\<dots> \<subseteq> set s" using set_dropWhileD by fastforce
  finally show ?thesis .
qed

lemma clean_text_no_linebreak: "list_all (\<lambda>c. \<not> is_linebreak c) (clean_text raw)"
proof -
  let ?t = "sub_runs is_space [32]
              (sub_long_tokens (map (\<lambda>c. if c = 13 then 10 else c) (sub_runs is_control [32] raw)))"
  have a: "\<forall>c \<in> set ?t. \<not> is_space c \<or> c = 32"
    using sub_runs_from_space[of False] by (simp add: sub_runs_def list_all_iff)
  have "\<forall>c \<in> set (py_strip ?t). \<not> is_linebreak c"
    using a set_py_strip[of ?t] linebreak_is_space by blast
  then show ?thesis by (simp add: clean_text_def list_all_iff)
qed

lemma splitlines_from_single:
  "list_all (\<lambda>c. \<not> is_linebreak c) s \<Longrightarrow>
   splitlines_from cur s = (if cur @ s = [] then [] else [cur @ s])"
proof (induction cur s rule: splitlines_from.induct)
  case (1 cur) show ?case by simp
next
  case (2 cur c) then show ?case by simp
next
  case (3 cur c d cs)
  then have nc: "\<not> is_linebreak c" and rest: "list_all (\<lambda>c. \<not> is_linebreak c) (d # cs)"
    by simp_all
  have "c \<noteq> 13" using nc by (auto simp: is_linebreak_def)
  then show ?case using 3 nc rest by simp
qed

lemma splitlines_single:
  "list_all (\<lambda>c. \<not> is_linebreak c) s \<Longrightarrow> splitlines s = (if s = [] then [] else [s])"
  by (simp add: splitlines_def splitlines_from_single)

lemma length_map_filter_le: "length (List.map_filter f xs) \<le> length xs"
  by (induction xs) (auto simp: List.map_filter_simps split: option.splits)

lemma csv_block_single:
  assumes "reads_one_row_per_line E" "list_all (\<lambda>c. \<not> is_linebreak c) block"
  shows "csv_block_records E block = []"
proof (cases "csv_reader E block")
  case None
  then show ?thesis by (simp add: csv_block_records_def)
next
  case (Some rows)
  with assms have "length rows \<le> 1" by (auto simp: reads_one_row_per_line_def)
  then show ?thesis using Some
    by (cases rows) (auto simp: csv_block_records_def)
qed

lemma extract_csv_single:
  assumes "reads_one_row_per_line E" "list_all (\<lambda>c. \<not> is_linebreak c) t"
  shows "extract_csv_fragments E t = []"
proof -
  have sl: "splitlines t = (if t = [] then [] else [t])"
    using assms(2) by (rule splitlines_single)
  have nil: "csv_block_records E [] = []" by (simp add: csv_block_records_def)
  have one: "csv_block_records E t = []" using assms by (rule csv_block_single)
  show ?thesis
    using nil one by (simp add: extract_csv_fragments_def sl Let_def)
qed

lemma extract_kv_single:
  assumes "list_all (\<lambda>c. \<not> is_linebreak c) t"
  shows "length (extract_kv_pairs t) \<le> 1"
proof -
  have "length (extract_kv_pairs t) \<le> length (splitlines t)"
    unfolding extract_kv_pairs_def by (rule length_map_filter_le)
  also have "\<dots> \<le> 1" using splitlines_single[OF assms] by simp
  finally show ?thesis .
qed

lemma split_on_absent: "sep \<notin> set s \<Longrightarrow> split_on sep cur s = [cur @ s]"
  by (induction s arbitrary: cur) auto

lemma plain_reader_one_row: "reads_one_row_per_line ascii_collaborators"
proof -
  have "length (filter (\<lambda>l. l \<noteq> []) (split_on 10 [] block)) \<le> 1"
    if "list_all (\<lambda>c. \<not> is_linebreak c) block" for block
  proof -
    have "10 \<notin> set block" using that by (auto simp: list_all_iff is_linebreak_def)
    then show ?thesis by (simp add: split_on_absent)
  qed
  then show ?thesis
    by (simp add: reads_one_row_per_line_def ascii_collaborators_def plain_csv_reader_def)
qed

lemmas char_class_defs =
  is_space_def is_linebreak_def is_control_def is_word_char_def is_ascii_alpha_def
  is_ascii_upper_def is_ascii_lower_def is_ascii_digit_def is_lower_word_char_def

lemmas extractor_eval =
  U_def Let_def py_strip_def sub_runs_def splitlines_def extract_kv_pairs_def kv_of_line_def
  is_safe_key_def List.map_filter_simps char_class_defs

text \<open>
  The key:value extractor on the text of Scenario C itself, two lines, gives the two
  pairs in order, keys as they stand.
\<close>

lemma extract_kv_pairs_two_lines:
  "extract_kv_pairs two_lines
     = [(U ''Name'', U ''Alice''), (U ''Age'', U ''30'')]"
  by (simp add: two_lines_def extractor_eval)

text \<open>The cleaning step turns the newline between the two lines into a space.\<close>

lemma clean_text_two_lines:
  "clean_text two_lines = U ''Name: Alice Age: 30''"
  by (simp add: two_lines_def clean_text_def extractor_eval)

text \<open>
  C2.  For the bytes of the two lines \<open>Name: Alice\<close> and \<open>Age: 30\<close>, the bundle of
  \<open>extract_fragments_from_bytes\<close> should hold the two pairs \<open>(Name, Alice)\<close> and
  \<open>(Age, 30)\<close>.  The code cleans the text first, which joins the lines, and the bundle
  holds the single pair \<open>(Name, Alice Age: 30)\<close>.
\<close>

theorem scenario_c_bundle_has_one_pair:
  "kv_pairs (extract_fragments_from_bytes ascii_collaborators
               two_lines None)
     = [(U ''Name'', U ''Alice Age: 30'')]
   \<and> kv_pairs (extract_fragments_from_bytes ascii_collaborators
               two_lines None)
     \<noteq> [(U ''Name'', U ''Alice''), (U ''Age'', U ''30'')]"
proof -
  have dec: "decode_bytes ascii_collaborators two_lines None = two_lines"
    by (simp add: decode_bytes_def is_pdf_name_def ascii_collaborators_def two_lines_def U_def)
  have kv: "extract_kv_pairs (U ''Name: Alice Age: 30'') = [(U ''Name'', U ''Alice Age: 30'')]"
    by (simp add: extractor_eval)
  have "kv_pairs (extract_fragments_from_bytes ascii_collaborators
               two_lines None)
          = [(U ''Name'', U ''Alice Age: 30'')]"
    by (simp add: extract_fragments_from_bytes_def Let_def dec clean_text_two_lines kv)
  then show ?thesis by (simp add: U_def)
qed

text \<open>
  C3.  For every byte string and every filename, the bundle has no CSV fragment and at
  most one key:value pair: the cleaned text holds no line boundary, so the line-based
  extractors see one line.  The CSV reader is assumed to give at most one row for one
  line.
\<close>

theorem cleaned_text_is_one_line:
  assumes "reads_one_row_per_line E"
  shows "csv_fragments (extract_fragments_from_bytes E b filename) = []
       \<and> length (kv_pairs (extract_fragments_from_bytes E b filename)) \<le> 1"
  using extract_csv_single[OF assms clean_text_no_linebreak]
        extract_kv_single[OF clean_text_no_linebreak]
  by (simp add: extract_fragments_from_bytes_def Let_def)

theorem cleaned_text_is_one_line_witness:
  "reads_one_row_per_line ascii_collaborators
   \<and> csv_fragments (extract_fragments_from_bytes ascii_collaborators
        (U ''a,b'' @ [10] @ U ''1,2'') None) = []
   \<and> length (kv_pairs (extract_fragments_from_bytes ascii_collaborators
        (U ''a,b'' @ [10] @ U ''1,2'') None)) \<le> 1"
  using plain_reader_one_row cleaned_text_is_one_line[OF plain_reader_one_row] by simp

subsection \<open>Sanitized keys\<close>

lemma lower_from_no_upper:
  "lowercase_only low \<Longrightarrow> list_all (\<lambda>d. \<not> is_ascii_upper d) (lower_from low pre s)"
  by (induction s arbitrary: pre)
     (auto simp: lowercase_only_def ascii_lower_def is_ascii_upper_def not_less)

lemma sub_runs_from_no_upper:
  "list_all (\<lambda>d. \<not> is_ascii_upper d) s \<Longrightarrow>
   list_all (\<lambda>d. \<not> is_ascii_upper d) (sub_runs_from P [95] b s)"
  by (induction s arbitrary: b) (auto simp: is_ascii_upper_def)

lemma sanitize_key_chars:
  assumes "lowercase_only low"
  shows "list_all is_lower_word_char (sanitize_key low k)"
proof -
  have "list_all (\<lambda>d. \<not> is_ascii_upper d) (sub_runs is_space [95] (py_lower low (py_strip k)))"
    unfolding sub_runs_def py_lower_def
    by (rule sub_runs_from_no_upper, rule lower_from_no_upper, rule assms)
  then show ?thesis
    by (auto simp: sanitize_key_def list_all_iff is_word_char_def is_lower_word_char_def
                   is_ascii_alpha_def)
qed

lemma sanitize_keys_into_fold:
  "sanitize_keys_into low out d = fold (\<lambda>(k, v) m. AList.update k v m) (kept_entries low d) out"
proof (induction d arbitrary: out)
  case Nil show ?case by (simp add: kept_entries_def)
next
  case (Cons a d)
  obtain k v where a: "a = (k, v)" by (cases a)
  show ?case
  proof (cases "sanitize_key low k = [] \<or> 60 < length (sanitize_key low k)")
    case True
    then have "kept_entries low (a # d) = kept_entries low d"
      by (auto simp: kept_entries_def a)
    then show ?thesis using True Cons a by simp
  next
    case False
    then have "kept_entries low (a # d) = (sanitize_key low k, v) # kept_entries low d"
      by (auto simp: kept_entries_def a)
    then show ?thesis using False Cons a by simp
  qed
qed

lemma sanitize_keys_eq: "sanitize_keys low d = dict_of (kept_entries low d)"
  by (simp add: sanitize_keys_def dict_of_def sanitize_keys_into_fold)

lemma keys_fold_update:
  "fst ` set (fold (\<lambda>(k, v) m. AList.update k v m) kvs out) = fst ` set kvs \<union> fst ` set out"
proof (induction kvs arbitrary: out)
  case Nil show ?case by simp
next
  case (Cons a kvs)
  obtain k v where a: "a = (k, v)" by (cases a)
  have "fst ` set (AList.update k v out) = insert k (fst ` set out)"
    using dom_update[of k v out] by (simp add: dom_map_of_conv_image_fst)
  then show ?case using Cons a by auto
qed

lemma sanitize_keys_ok:
  assumes "lowercase_only low" "k \<in> fst ` set (sanitize_keys low d)"
  shows "matches_key_pattern k \<and> length k \<le> 60"
proof -
  from assms(2) have "k \<in> fst ` set (kept_entries low d)"
    by (simp add: sanitize_keys_eq dict_of_def keys_fold_update)
  then obtain k0 where "k = sanitize_key low k0" "k \<noteq> []" "length k \<le> 60"
    by (auto simp: kept_entries_def)
  then show ?thesis using sanitize_key_chars[OF assms(1)] by (simp add: matches_key_pattern_def)
qed

lemma table_records_sanitized:
  "r \<in> set (table_records low trs) \<Longrightarrow> \<exists>obj. r = sanitize_keys low obj"
  by (auto simp: table_records_def Let_def split: list.splits if_splits)

lemma html_sanitized:
  "r \<in> set (extract_html_tables E text) \<Longrightarrow> \<exists>obj. r = sanitize_keys (lower_nonascii E) obj"
  by (auto simp: extract_html_tables_def split: option.splits dest: table_records_sanitized)

lemma csv_block_sanitized:
  "r \<in> set (csv_block_records E block) \<Longrightarrow> \<exists>obj. r = sanitize_keys (lower_nonascii E) obj"
  by (auto simp: csv_block_records_def split: option.splits list.splits if_splits)

lemma csv_sanitized:
  "r \<in> set (extract_csv_fragments E text) \<Longrightarrow> \<exists>obj. r = sanitize_keys (lower_nonascii E) obj"
  by (auto simp: extract_csv_fragments_def Let_def dest: csv_block_sanitized)

lemma keep_nonascii_lowercase_only: "lowercase_only keep_nonascii"
  by (simp add: lowercase_only_def keep_nonascii_def is_ascii_upper_def)

text \<open>
  The CSV extractor on a two-line table (given the lines as they stand): the header
  \<open>Full Name\<close> becomes the key \<open>full_name\<close>, and a header without any letter or digit
  loses its column.
\<close>

lemma extract_csv_fragments_example:
  "extract_csv_fragments ascii_collaborators small_table
     = [[(U ''full_name'', U ''Al''), (U ''age'', U ''3'')]]"
  by (simp add: small_table_def extract_csv_fragments_def csv_block_records_def
        ascii_collaborators_def plain_csv_reader_def header_like_def dict_of_def sanitize_keys_def sanitize_key_def
        py_lower_def ascii_lower_def keep_nonascii_def extractor_eval)

text \<open>
  C10.  Every record that the HTML-table and the CSV extraction emit is the result of
  \<open>_sanitize_keys\<close>, and each of its keys is made of one or more characters of
  \<open>[a-z0-9_]\<close> and has at most 60 of them.  \<open>_sanitize_keys\<close> keeps exactly the entries
  whose sanitized key is neither empty nor longer than 60 characters; the others go,
  key and value.  Lowercasing is assumed to give no letter of \<open>A..Z\<close>.
\<close>

theorem sanitized_keys_match_pattern:
  assumes "lowercase_only (lower_nonascii E)"
  shows "(\<forall>r \<in> set (extract_html_tables E text) \<union> set (extract_csv_fragments E text).
            (\<exists>obj. r = sanitize_keys (lower_nonascii E) obj)
            \<and> (\<forall>k \<in> fst ` set r. matches_key_pattern k \<and> length k \<le> 60))
       \<and> sanitize_keys (lower_nonascii E) d = dict_of (kept_entries (lower_nonascii E) d)"
proof -
  have "(\<exists>obj. r = sanitize_keys (lower_nonascii E) obj)
        \<and> (\<forall>k \<in> fst ` set r. matches_key_pattern k \<and> length k \<le> 60)"
    if "r \<in> set (extract_html_tables E text) \<union> set (extract_csv_fragments E text)" for r
  proof -
    from that obtain obj where r: "r = sanitize_keys (lower_nonascii E) obj"
      using html_sanitized csv_sanitized by blast
    then show ?thesis using sanitize_keys_ok[OF assms] by blast
  qed
  then show ?thesis using sanitize_keys_eq by blast
qed

theorem sanitized_keys_match_pattern_witness:
  "lowercase_only (lower_nonascii ascii_collaborators)
   \<and> [(U ''full_name'', U ''Al''), (U ''age'', U ''3'')]
       \<in> set (extract_csv_fragments ascii_collaborators
                small_table)
   \<and> matches_key_pattern (U ''full_name'') \<and> length (U ''full_name'') \<le> 60
   \<and> matches_key_pattern (U ''age'') \<and> length (U ''age'') \<le> 60
   \<and> sanitize_keys (lower_nonascii ascii_collaborators) [(U ''Full Name'', U ''Al''), (U ''??'', U ''x'')]
       = dict_of (kept_entries (lower_nonascii ascii_collaborators)
                    [(U ''Full Name'', U ''Al''), (U ''??'', U ''x'')])"
proof -
  have h: "lowercase_only (lower_nonascii ascii_collaborators)"
    by (simp add: ascii_collaborators_def keep_nonascii_lowercase_only)
  have m: "[(U ''full_name'', U ''Al''), (U ''age'', U ''3'')]
       \<in> set (extract_csv_fragments ascii_collaborators
                small_table)"
    by (simp add: extract_csv_fragments_example)
  note t = sanitized_keys_match_pattern[OF h, of small_table
             "[(U ''Full Name'', U ''Al''), (U ''??'', U ''x'')]"]
  from t m have keys: "\<forall>k \<in> fst ` set [(U ''full_name'', U ''Al''), (U ''age'', U ''3'')].
                         matches_key_pattern k \<and> length k \<le> 60"
    by blast
  have k1: "matches_key_pattern (U ''full_name'') \<and> length (U ''full_name'') \<le> 60"
    using keys by simp
  have k2: "matches_key_pattern (U ''age'') \<and> length (U ''age'') \<le> 60"
    using keys by simp
  show ?thesis using h m k1 k2 t by blast
qed

end
